theory Spec2Isabelle
  imports Main "HOL-Library.Sublist" "HOL-Library.List_Lexorder" "HOL-Library.Multiset"
begin

section \<open>Python strings\<close>

text \<open>
  A Python \<open>str\<close> is a sequence of Unicode code points: \<open>len\<close> counts code points,
  \<open>+\<close> concatenates, and \<open><\<close> compares lexicographically by code point (the order of
  \<^theory_text>\<open>HOL-Library.List_Lexorder\<close> on \<open>nat list\<close>). A literal of the source is
  written \<open>str ''...''\<close>.
\<close>

type_synonym pystr = "nat list"

definition str :: "string \<Rightarrow> pystr" where
  "str s = map of_char s"

definition space :: nat where
  "space = 32"

text \<open>\<open>needle in haystack\<close> on strings: the needle occurs as a contiguous run.\<close>

fun starts_with :: "'a list \<Rightarrow> 'a list \<Rightarrow> bool" where
  "starts_with hs [] = True"
| "starts_with [] (n # ns) = False"
| "starts_with (h # hs) (n # ns) = (h = n \<and> starts_with hs ns)"

fun contains :: "'a list \<Rightarrow> 'a list \<Rightarrow> bool" where
  "contains [] ns = (ns = [])"
| "contains (h # hs) ns = (starts_with (h # hs) ns \<or> contains hs ns)"

text \<open>Decimal digits, as an f-string or \<open>strftime\<close> prints a number.\<close>

definition digit :: "nat \<Rightarrow> nat" where
  "digit n = 48 + n mod 10"

fun str_of_nat :: "nat \<Rightarrow> pystr" where
  "str_of_nat n = (if n < 10 then [digit n] else str_of_nat (n div 10) @ [digit n])"

section \<open>The digest object\<close>

text \<open>
  A news item is the dict built in \<open>fetch_feed\<close>; a feed is a dict with the keys
  \<open>name\<close> and \<open>url\<close>.
\<close>

record news_item =
  title :: pystr
  url :: pystr
  description :: pystr
  source :: pystr
  date :: pystr

record feed =
  feed_name :: pystr
  feed_url :: pystr

text \<open>
  The attributes of \<open>RSSAutomationNewsDigest\<close>. \<open>max_results\<close> is a Python \<open>int\<close>;
  nothing in the class restricts its sign. The attribute \<open>keywords\<close> is
  \<open>keywords_list\<close> here (\<open>keywords\<close> is reserved in theory headers).
\<close>

record digest =
  keywords_list :: "pystr list"
  max_results :: int
  debug_mode :: bool
  rss_feeds :: "feed list"
  news_items :: "news_item list"

section \<open>Exceptions and the libraries\<close>

text \<open>
  The exceptions of class \<open>Exception\<close> that reach the code: the \<open>AttributeError\<close> of
  reading an attribute that a feed entry does not have, and whatever a library call
  raises (with its message).
\<close>

datatype py_exception = AttributeError pystr | LibraryError pystr

text \<open>
  \<open>datetime.now()\<close>, as far as \<open>strftime('%Y-%m-%d')\<close> reads it. The clock is read
  as one value for the run; \<open>%Y\<close> prints four digits for the years from 1000 on.
\<close>

record datetime =
  dt_year :: nat
  dt_month :: nat
  dt_day :: nat

definition valid_datetime :: "datetime \<Rightarrow> bool" where
  "valid_datetime d =
     (1000 \<le> dt_year d \<and> dt_year d \<le> 9999 \<and> 1 \<le> dt_month d \<and> dt_month d \<le> 12 \<and>
      1 \<le> dt_day d \<and> dt_day d \<le> 31)"

definition strftime_Ymd :: "datetime \<Rightarrow> pystr" where
  "strftime_Ymd d =
     [digit (dt_year d div 1000), digit (dt_year d div 100), digit (dt_year d div 10),
      digit (dt_year d)] @ str ''-'' @
     [digit (dt_month d div 10), digit (dt_month d)] @ str ''-'' @
     [digit (dt_day d div 10), digit (dt_day d)]"

text \<open>A \<open>time.struct_time\<close>: nine integers, and never falsy.\<close>

record struct_time =
  tm_year :: int
  tm_mon :: int
  tm_mday :: int
  tm_hour :: int
  tm_min :: int
  tm_sec :: int
  tm_wday :: int
  tm_yday :: int
  tm_isdst :: int

text \<open>
  A parsed feed entry, as the source reads it: each attribute is present or absent
  (\<open>hasattr\<close>). \<open>published_parsed\<close> may be present and \<open>None\<close>; a content block may
  lack its \<open>value\<close>.
\<close>

record entry =
  entry_title :: "pystr option"
  entry_link :: "pystr option"
  entry_summary :: "pystr option"
  entry_description :: "pystr option"
  entry_content :: "pystr option list option"
  entry_published_parsed :: "struct_time option option"
  entry_pubDate :: "pystr option"

text \<open>
  What the program calls and does not define: \<open>str.lower\<close>, \<open>feedparser.parse\<close> (the
  entries of the feed at a URL, or the exception it raises), the clock,
  \<open>time.strftime('%Y-%m-%d', t)\<close>, \<open>pd.to_datetime(s).strftime('%Y-%m-%d')\<close>,
  \<open>DataFrame(items).to_csv\<close> and the markup that \<open>generate_html\<close> builds for a
  non-empty collection.
\<close>

record env =
  str_lower :: "pystr \<Rightarrow> pystr"
  feedparser_parse :: "pystr \<Rightarrow> py_exception + entry list"
  datetime_now :: datetime
  time_strftime :: "struct_time \<Rightarrow> py_exception + pystr"
  pd_to_datetime :: "pystr \<Rightarrow> py_exception + pystr"
  to_csv :: "news_item list \<Rightarrow> pystr"
  html_template :: "news_item list \<Rightarrow> pystr"

section \<open>The relevance filter\<close>

definition english_markers :: "pystr list" where
  "english_markers = map str [''the'', ''and'', ''is'', ''in'', ''to'', ''of'', ''for'', ''a'',
     ''with'', ''that'']"

text \<open>
  \<open>_is_related_to_automation\<close>, line by line. Debug printing has no effect on the
  result.
\<close>

definition is_related_to_automation :: "env \<Rightarrow> digest \<Rightarrow> pystr \<Rightarrow> pystr \<Rightarrow> bool" where
  "is_related_to_automation E self ttl descr =
     (let text_to_check = str_lower E (ttl @ [space] @ descr);
          english_word_count =
            sum_list [1::int. word \<leftarrow> english_markers,
                      contains ([space] @ text_to_check @ [space]) ([space] @ word @ [space])];
          is_english = (english_word_count \<ge> 2);
          is_automation_related =
            list_ex (\<lambda>keyword. contains text_to_check (str_lower E keyword)) (keywords_list self)
      in is_automation_related \<and> is_english)"

section \<open>The entry normalizer and the feed fetcher\<close>

text \<open>
  \<open>re.sub(r'<.*?>', '', s)\<close>: from each \<open><\<close>, the shortest run up to the next \<open>>\<close> is
  removed, when no newline comes before that \<open>>\<close> (the dot does not match a newline);
  otherwise the \<open><\<close> stays. \<open>tag_end cs\<close> is what follows the closing \<open>>\<close>.
\<close>

fun tag_end :: "pystr \<Rightarrow> pystr option" where
  "tag_end [] = None"
| "tag_end (c # cs) = (if c = 62 then Some cs else if c = 10 then None else tag_end cs)"

function strip_tags :: "pystr \<Rightarrow> pystr" where
  "strip_tags [] = []"
| "strip_tags (c # cs) =
     (if c = 60 then (case tag_end cs of Some r \<Rightarrow> strip_tags r | None \<Rightarrow> c # strip_tags cs)
      else c # strip_tags cs)"
  by pat_completeness auto
termination
proof -
  have shorter: "tag_end cs = Some r \<Longrightarrow> length r < Suc (length cs)" for cs r
    by (induction cs) (auto split: if_splits)
  show ?thesis
    by (relation "measure length") (auto dest: shorter)
qed

text \<open>The description: the first of summary, description and first content block.\<close>

definition get_description :: "entry \<Rightarrow> py_exception + pystr" where
  "get_description e =
     (case entry_summary e of Some s \<Rightarrow> Inr s
      | None \<Rightarrow>
          (case entry_description e of Some d \<Rightarrow> Inr d
           | None \<Rightarrow>
               (case entry_content e of
                  Some (b # bs) \<Rightarrow>
                    (case b of Some v \<Rightarrow> Inr v | None \<Rightarrow> Inl (AttributeError (str ''value'')))
                | _ \<Rightarrow> Inr [])))"

text \<open>
  The publication date: today by default; both \<open>try\<close> blocks swallow every exception.
  The string form is tried only when the structured one is absent or falsy.
\<close>

definition get_pub_date :: "env \<Rightarrow> entry \<Rightarrow> pystr" where
  "get_pub_date E e =
     (let pub_date = strftime_Ymd (datetime_now E) in
      case entry_published_parsed e of
        Some (Some t) \<Rightarrow> (case time_strftime E t of Inr s \<Rightarrow> s | Inl _ \<Rightarrow> pub_date)
      | _ \<Rightarrow>
          (case entry_pubDate e of
             Some s \<Rightarrow> (case pd_to_datetime E s of Inr d \<Rightarrow> d | Inl _ \<Rightarrow> pub_date)
           | None \<Rightarrow> pub_date))"

definition truncate_description :: "pystr \<Rightarrow> pystr" where
  "truncate_description clean_description =
     (if length clean_description > 200 then take 200 clean_description @ str ''...''
      else clean_description)"

text \<open>
  The body of the loop of \<open>fetch_feed\<close> for one entry: the exception it raises, or the
  item it appends, if any.
\<close>

definition fetch_feed_entry :: "env \<Rightarrow> digest \<Rightarrow> feed \<Rightarrow> entry \<Rightarrow> py_exception + news_item option" where
  "fetch_feed_entry E self fd e =
     (case entry_title e of
        None \<Rightarrow> Inl (AttributeError (str ''title''))
      | Some ttl \<Rightarrow>
          (let link = (case entry_link e of Some l \<Rightarrow> l | None \<Rightarrow> []) in
           case get_description e of
             Inl x \<Rightarrow> Inl x
           | Inr descr \<Rightarrow>
               (let pub_date = get_pub_date E e in
                if ttl \<noteq> [] \<and> link \<noteq> [] \<and> is_related_to_automation E self ttl descr
                then Inr (Some \<lparr>title = ttl, url = link,
                                description = truncate_description (strip_tags descr),
                                source = feed_name fd, date = pub_date\<rparr>)
                else Inr None)))"

fun fetch_feed_entries ::
  "env \<Rightarrow> digest \<Rightarrow> feed \<Rightarrow> entry list \<Rightarrow> news_item list \<Rightarrow> py_exception + news_item list" where
  "fetch_feed_entries E self fd [] feed_items = Inr feed_items"
| "fetch_feed_entries E self fd (e # es) feed_items =
     (case fetch_feed_entry E self fd e of
        Inl x \<Rightarrow> Inl x
      | Inr None \<Rightarrow> fetch_feed_entries E self fd es feed_items
      | Inr (Some item) \<Rightarrow> fetch_feed_entries E self fd es (feed_items @ [item]))"

text \<open>\<open>fetch_feed\<close>: the items and the number of entries, or the exception re-raised.\<close>

definition fetch_feed :: "env \<Rightarrow> digest \<Rightarrow> feed \<Rightarrow> py_exception + news_item list \<times> int" where
  "fetch_feed E self fd =
     (case feedparser_parse E (feed_url fd) of
        Inl x \<Rightarrow> Inl x
      | Inr entries \<Rightarrow>
          (case fetch_feed_entries E self fd entries [] of
             Inl x \<Rightarrow> Inl x
           | Inr feed_items \<Rightarrow> Inr (feed_items, int (length entries))))"

section \<open>The aggregator\<close>

text \<open>
  \<open>list.sort(key=..., reverse=True)\<close>: the list is reversed, sorted stably in ascending
  order of the key, and reversed again, so equal keys keep their order.
\<close>

definition sort_reverse :: "('a \<Rightarrow> 'k::linorder) \<Rightarrow> 'a list \<Rightarrow> 'a list" where
  "sort_reverse key xs = rev (sort_key key (rev xs))"

text \<open>The slice \<open>xs[:n]\<close>; a negative \<open>n\<close> counts from the end.\<close>

definition slice_to :: "'a list \<Rightarrow> int \<Rightarrow> 'a list" where
  "slice_to xs n = (if n \<ge> 0 then take (nat n) xs else take (length xs - nat (- n)) xs)"

text \<open>The counters that \<open>fetch_news\<close> prints in its summary.\<close>

record counters =
  total_entries_checked :: int
  successful_feeds :: int
  failed_feeds :: int

fun fetch_news_loop :: "env \<Rightarrow> feed list \<Rightarrow> digest \<times> counters \<Rightarrow> digest \<times> counters" where
  "fetch_news_loop E [] (self, c) = (self, c)"
| "fetch_news_loop E (fd # fds) (self, c) =
     (case fetch_feed E self fd of
        Inr (feed_items, entries_count) \<Rightarrow>
          (let c1 = c\<lparr>total_entries_checked := total_entries_checked c + entries_count\<rparr> in
           if feed_items \<noteq> []
           then fetch_news_loop E fds
                  (self\<lparr>news_items := news_items self @ feed_items\<rparr>,
                   c1\<lparr>successful_feeds := successful_feeds c1 + 1\<rparr>)
           else fetch_news_loop E fds (self, c1\<lparr>successful_feeds := successful_feeds c1 + 1\<rparr>))
      | Inl x \<Rightarrow> fetch_news_loop E fds (self, c\<lparr>failed_feeds := failed_feeds c + 1\<rparr>))"

text \<open>
  \<open>fetch_news\<close>: the object afterwards, the list returned (the object's own
  \<open>news_items\<close>) and the counters. The pause between feeds has no effect on them.
\<close>

definition fetch_news :: "env \<Rightarrow> digest \<Rightarrow> digest \<times> news_item list \<times> counters" where
  "fetch_news E self =
     (let (self1, c) = fetch_news_loop E (rss_feeds self)
                         (self, \<lparr>total_entries_checked = 0, successful_feeds = 0, failed_feeds = 0\<rparr>);
          self2 = self1\<lparr>news_items := sort_reverse date (news_items self1)\<rparr>;
          self3 = (if int (length (news_items self2)) > max_results self2
                   then self2\<lparr>news_items := slice_to (news_items self2) (max_results self2)\<rparr>
                   else self2)
      in (self3, news_items self3, c))"

section \<open>Saving\<close>

text \<open>
  The directories and files of the working directory, and the lines printed.
  \<open>os.makedirs(..., exist_ok=True)\<close> adds a directory; writing a file sets its content.
\<close>

record world =
  dirs :: "pystr set"
  files :: "pystr \<rightharpoonup> pystr"
  printed :: "pystr list"

definition folder_path :: pystr where
  "folder_path = str ''automation_news_folder''"

text \<open>\<open>os.path.join\<close> of the folder and a file name (POSIX): an absolute name wins.\<close>

definition path_join :: "pystr \<Rightarrow> pystr \<Rightarrow> pystr" where
  "path_join a b = (if starts_with b (str ''/'') then b else a @ str ''/'' @ b)"

definition generate_html :: "env \<Rightarrow> digest \<Rightarrow> pystr" where
  "generate_html E self =
     (if news_items self = [] then str ''<p>No news items found.</p>''
      else html_template E (news_items self))"

definition save_to_csv :: "env \<Rightarrow> digest \<Rightarrow> pystr option \<Rightarrow> world \<Rightarrow> world" where
  "save_to_csv E self filename w =
     (if news_items self = [] then w\<lparr>printed := printed w @ [str ''No news items to save.'']\<rparr>
      else
        (let w1 = w\<lparr>dirs := insert folder_path (dirs w)\<rparr>;
             fname = (case filename of
                        None \<Rightarrow> str ''automation_news_'' @ strftime_Ymd (datetime_now E) @ str ''.csv''
                      | Some f \<Rightarrow> f);
             full_path = path_join folder_path fname;
             w2 = w1\<lparr>files := (files w1)(full_path \<mapsto> to_csv E (news_items self))\<rparr>
         in w2\<lparr>printed := printed w2 @
                  [str ''Saved '' @ str_of_nat (length (news_items self)) @
                   str '' news items to '' @ full_path]\<rparr>))"

definition save_to_html :: "env \<Rightarrow> digest \<Rightarrow> pystr option \<Rightarrow> world \<Rightarrow> world" where
  "save_to_html E self filename w =
     (if news_items self = [] then w\<lparr>printed := printed w @ [str ''No news items to save.'']\<rparr>
      else
        (let w1 = w\<lparr>dirs := insert folder_path (dirs w)\<rparr>;
             fname = (case filename of
                        None \<Rightarrow> str ''automation_news_'' @ strftime_Ymd (datetime_now E) @ str ''.html''
                      | Some f \<Rightarrow> f);
             full_path = path_join folder_path fname;
             w2 = w1\<lparr>files := (files w1)(full_path \<mapsto> generate_html E self)\<rparr>
         in w2\<lparr>printed := printed w2 @ [str ''Saved HTML digest to '' @ full_path]\<rparr>))"

section \<open>The constructor\<close>

definition default_keywords :: "pystr list" where
  "default_keywords = map str
     [''workflow automation'', ''process automation'', ''digital automation'',
      ''robotic process automation'', ''rpa'', ''hyperautomation'',
      ''no-code automation'', ''low-code'', ''business process automation'',
      ''intelligent automation'', ''document automation'', ''task automation'',
      ''ai automation'', ''digital twins'', ''automation tools'', ''agentic'',
      ''ai agent'', ''automation platform'', ''workflow management'',
      ''automation'', ''automate'', ''automated'', ''automating'',
      ''productivity automation'', ''office automation'', ''email automation'',
      ''data automation'', ''automation software'', ''citizen developer'']"

definition default_rss_feeds :: "feed list" where
  "default_rss_feeds = map (\<lambda>(n, u). \<lparr>feed_name = str n, feed_url = str u\<rparr>)
     [(''TechCrunch'', ''https://techcrunch.com/feed/''),
      (''TechCrunch Enterprise'', ''https://techcrunch.com/enterprise/feed/''),
      (''VentureBeat'', ''https://feeds.feedburner.com/venturebeat/SZYF''),
      (''Wired'', ''https://www.wired.com/feed/rss''),
      (''MIT Technology Review'', ''https://www.technologyreview.com/feed/''),
      (''UiPath Blog'', ''https://www.uipath.com/blog/rss.xml''),
      (''AutomationEdge'', ''https://automationedge.com/feed''),
      (''Digital Workforce'', ''https://digitalworkforce.com/rpa-news/feed/''),
      (''Intelligent Automation Network'', ''https://www.intelligentautomation.network/rss/all''),
      (''Process Excellence Network'', ''https://www.processexcellencenetwork.com/rss/all''),
      (''The Enterprisers Project'', ''https://enterprisersproject.com/taxonomy/term/8271/feed''),
      (''SSON Analytics RPA'', ''https://www.sson-analytics.com/taxonomy/term/7066/feed''),
      (''Convedo Digital Transformation'', ''https://convedo.com/blog/feed/''),
      (''Sisua Digital'', ''https://sisuadigital.com/feed''),
      (''Roboyo'', ''https://roboyo.global/insights/feed/'')]"

text \<open>\<open>__init__\<close>: an absent or empty keyword list gives the default keywords.\<close>

definition init :: "pystr list option \<Rightarrow> int \<Rightarrow> bool \<Rightarrow> digest" where
  "init kws max_res dbg =
     \<lparr>keywords_list = (case kws of None \<Rightarrow> default_keywords
                        | Some ks \<Rightarrow> if ks \<noteq> [] then ks else default_keywords),
      max_results = max_res, debug_mode = dbg, rss_feeds = default_rss_feeds,
      news_items = []\<rparr>"

section \<open>The relevance filter in the words of the specification\<close>

text \<open>
  \<open>split_on d\<close> cuts a text at every \<open>d\<close>, as \<open>str.split(' ')\<close> does; its pieces are the
  space-delimited tokens. A marker counts when it is one of the tokens, once however
  often it occurs; a keyword counts when its lowering is a substring.
\<close>

fun split_on :: "'a \<Rightarrow> 'a list \<Rightarrow> 'a list list" where
  "split_on d [] = [[]]"
| "split_on d (x # xs) =
     (if x = d then [] # split_on d xs
      else (x # hd (split_on d xs)) # tl (split_on d xs))"

definition occurs_as_token :: "pystr \<Rightarrow> pystr \<Rightarrow> bool" where
  "occurs_as_token m body = (m \<in> set (split_on space body))"

definition relevance_filter_spec :: "env \<Rightarrow> pystr list \<Rightarrow> pystr \<Rightarrow> pystr \<Rightarrow> bool" where
  "relevance_filter_spec E kws ttl descr =
     (let body = str_lower E (ttl @ [space] @ descr)
      in 2 \<le> card {m \<in> set english_markers. occurs_as_token m body} \<and>
         (\<exists>k \<in> set kws. sublist (str_lower E k) body))"

section \<open>What a run collects\<close>

text \<open>
  The items and the entry count that one feed contributes (nothing when its fetch
  raises), the collection before sorting, and the cut to \<open>max_results\<close>.
\<close>

definition feed_items :: "env \<Rightarrow> digest \<Rightarrow> feed \<Rightarrow> news_item list" where
  "feed_items E self fd = (case fetch_feed E self fd of Inr (its, n) \<Rightarrow> its | Inl x \<Rightarrow> [])"

definition feed_entries_count :: "env \<Rightarrow> digest \<Rightarrow> feed \<Rightarrow> int" where
  "feed_entries_count E self fd = (case fetch_feed E self fd of Inr (its, n) \<Rightarrow> n | Inl x \<Rightarrow> 0)"

definition accumulated :: "env \<Rightarrow> digest \<Rightarrow> news_item list" where
  "accumulated E self = news_items self @ concat (map (feed_items E self) (rss_feeds self))"

definition limit_to_max :: "int \<Rightarrow> 'a list \<Rightarrow> 'a list" where
  "limit_to_max m xs = (if int (length xs) > m then slice_to xs m else xs)"

text \<open>The item of one entry, when the entry raises nothing and is accepted.\<close>

definition entry_item :: "env \<Rightarrow> digest \<Rightarrow> feed \<Rightarrow> entry \<Rightarrow> news_item option" where
  "entry_item E self fd e = (case fetch_feed_entry E self fd e of Inr r \<Rightarrow> r | Inl x \<Rightarrow> None)"

text \<open>The form \<open>YYYY-MM-DD\<close>: ten characters, digits around two hyphens.\<close>

definition is_digit :: "nat \<Rightarrow> bool" where
  "is_digit c = (48 \<le> c \<and> c \<le> 57)"

definition Ymd_form :: "pystr \<Rightarrow> bool" where
  "Ymd_form s =
     (length s = 10 \<and> s ! 4 = 45 \<and> s ! 7 = 45 \<and>
      list_all (\<lambda>i. is_digit (s ! i)) [0, 1, 2, 3, 5, 6, 8, 9])"

section \<open>A concrete environment\<close>

text \<open>
  Lowering of the ASCII letters, a clock and the feeds at four URLs, for evaluating the
  definitions on examples. The feed at \<open>d\<close> starts with an entry that has no attribute at
  all; every other URL cannot be fetched.
\<close>

definition ascii_lower :: "pystr \<Rightarrow> pystr" where
  "ascii_lower s = map (\<lambda>c. if 65 \<le> c \<and> c \<le> 90 then c + 32 else c) s"

definition no_attributes :: entry where
  "no_attributes = \<lparr>entry_title = None, entry_link = None, entry_summary = None,
     entry_description = None, entry_content = None, entry_published_parsed = None,
     entry_pubDate = None\<rparr>"

definition entry_platform :: entry where
  "entry_platform = no_attributes
     \<lparr>entry_title := Some (str ''The new automation platform is here''),
      entry_link := Some (str ''http://a/1''),
      entry_summary := Some (str ''<p>It is <b>new</b></p>''),
      entry_published_parsed :=
        Some (Some \<lparr>tm_year = 2024, tm_mon = 3, tm_mday = 5, tm_hour = 0, tm_min = 0,
                     tm_sec = 0, tm_wday = 1, tm_yday = 65, tm_isdst = 0\<rparr>)\<rparr>"

definition entry_sports :: entry where
  "entry_sports = no_attributes
     \<lparr>entry_title := Some (str ''Completely unrelated sports news''),
      entry_link := Some (str ''http://a/2'')\<rparr>"

definition entry_office :: entry where
  "entry_office = no_attributes
     \<lparr>entry_title := Some (str ''How to automate the office''),
      entry_link := Some (str ''http://c/1''),
      entry_pubDate := Some (str ''soon'')\<rparr>"

definition example_env :: env where
  "example_env =
     \<lparr>str_lower = ascii_lower,
      feedparser_parse = (\<lambda>u. if u = str ''a'' then Inr [entry_platform, entry_sports]
                              else if u = str ''c'' then Inr [entry_office]
                              else if u = str ''d'' then Inr [no_attributes, entry_platform]
                              else Inl (LibraryError (str ''timed out''))),
      datetime_now = \<lparr>dt_year = 2024, dt_month = 3, dt_day = 7\<rparr>,
      time_strftime = (\<lambda>t. if 1 \<le> tm_mon t \<and> tm_mon t \<le> 12
                            then Inr (strftime_Ymd \<lparr>dt_year = nat (tm_year t),
                                        dt_month = nat (tm_mon t), dt_day = nat (tm_mday t)\<rparr>)
                            else Inl (LibraryError (str ''month out of range''))),
      pd_to_datetime = (\<lambda>s. Inl (LibraryError (str ''unknown format''))),
      to_csv = concat \<circ> map title,
      html_template = concat \<circ> map title\<rparr>"

definition feed_A :: feed where
  "feed_A = \<lparr>feed_name = str ''A'', feed_url = str ''a''\<rparr>"

definition feed_B :: feed where
  "feed_B = \<lparr>feed_name = str ''B'', feed_url = str ''b''\<rparr>"

definition feed_C :: feed where
  "feed_C = \<lparr>feed_name = str ''C'', feed_url = str ''c''\<rparr>"

definition feed_D :: feed where
  "feed_D = \<lparr>feed_name = str ''D'', feed_url = str ''d''\<rparr>"

definition example_digest :: digest where
  "example_digest = (init (Some [str ''automation platform'', str ''automate'']) 10 False)
     \<lparr>rss_feeds := [feed_A, feed_B, feed_C]\<rparr>"

text \<open>The items that the entries of the feeds at \<open>a\<close> and \<open>c\<close> give.\<close>

definition item_platform :: news_item where
  "item_platform =
     \<lparr>title = str ''The new automation platform is here'', url = str ''http://a/1'',
      description = str ''It is new'', source = str ''A'', date = str ''2024-03-05''\<rparr>"

definition item_office :: news_item where
  "item_office =
     \<lparr>title = str ''How to automate the office'', url = str ''http://c/1'',
      description = [], source = str ''C'', date = str ''2024-03-07''\<rparr>"


definition empty_world :: world where
  "empty_world = \<lparr>dirs = {}, files = Map.empty, printed = []\<rparr>"

section \<open>Substrings and tokens\<close>

lemma starts_with_prefix: "starts_with hs ns = prefix ns hs"
  by (induction hs ns rule: starts_with.induct) auto

lemma contains_sublist: "contains hs ns = sublist ns hs"
  by (induction hs) (auto simp: starts_with_prefix sublist_Cons_right)

lemma split_on_nonempty: "split_on d xs \<noteq> []"
  by (induction xs) auto

text \<open>
  The first token is the text up to the first delimiter; the later tokens are the runs
  without a delimiter that stand between two delimiters, the end of the text counting
  as one.
\<close>

lemma split_on_hd_tl:
  "(m = hd (split_on d xs) \<longleftrightarrow> d \<notin> set m \<and> prefix (m @ [d]) (xs @ [d])) \<and>
   (m \<in> set (tl (split_on d xs)) \<longleftrightarrow> d \<notin> set m \<and> sublist (d # m @ [d]) (xs @ [d]))"
proof (induction xs arbitrary: m)
  case Nil
  show ?case by (cases m) (auto simp: sublist_Cons_right)
next
  case (Cons x xs)
  show ?case
  proof (cases "x = d")
    case True
    have "m \<in> set (split_on d xs) \<longleftrightarrow> m = hd (split_on d xs) \<or> m \<in> set (tl (split_on d xs))"
      using split_on_nonempty [of d xs] by (cases "split_on d xs") auto
    with True Cons [of m] show ?thesis
      by (cases m) (auto simp: sublist_Cons_right)
  next
    case False
    with Cons [of m] Cons [of "tl m"] show ?thesis
      by (cases m) (auto simp: sublist_Cons_right)
  qed
qed

lemma split_on_iff:
  "m \<in> set (split_on d xs) \<longleftrightarrow> d \<notin> set m \<and> sublist ([d] @ m @ [d]) ([d] @ xs @ [d])"
proof -
  have "m \<in> set (split_on d xs) \<longleftrightarrow> m = hd (split_on d xs) \<or> m \<in> set (tl (split_on d xs))"
    using split_on_nonempty [of d xs] by (cases "split_on d xs") auto
  then show ?thesis
    using split_on_hd_tl [of m d xs] by (auto simp: sublist_Cons_right)
qed

lemma count_comprehension:
  "sum_list (concat (map (\<lambda>w. if P w then [1::int] else []) ms)) = int (length (filter P ms))"
  by (induction ms) auto

lemma length_filter_card:
  assumes "distinct xs"
  shows "length (filter P xs) = card {x \<in> set xs. P x}"
proof -
  from assms have "distinct (filter P xs)" by simp
  then have "length (filter P xs) = card (set (filter P xs))" by (simp only: distinct_card)
  then show ?thesis by simp
qed

lemma distinct_english_markers: "distinct english_markers"
  by (simp add: english_markers_def str_def)

lemma space_notin_markers: "m \<in> set english_markers \<Longrightarrow> space \<notin> set m"
  by (auto simp: english_markers_def str_def space_def)

section \<open>The loops\<close>

text \<open>Nothing that \<open>fetch_feed\<close> does reads the items collected so far.\<close>

lemma is_related_news_items [simp]:
  "is_related_to_automation E (self\<lparr>news_items := xs\<rparr>) = is_related_to_automation E self"
  by (intro ext) (simp add: is_related_to_automation_def)

lemma fetch_feed_entry_news_items [simp]:
  "fetch_feed_entry E (self\<lparr>news_items := xs\<rparr>) = fetch_feed_entry E self"
  by (intro ext) (simp add: fetch_feed_entry_def Let_def split: option.splits sum.splits)

lemma fetch_feed_entries_news_items [simp]:
  "fetch_feed_entries E (self\<lparr>news_items := xs\<rparr>) fd es acc = fetch_feed_entries E self fd es acc"
  by (induction es arbitrary: acc) (auto split: sum.splits option.splits)

lemma fetch_feed_news_items [simp]:
  "fetch_feed E (self\<lparr>news_items := xs\<rparr>) = fetch_feed E self"
  by (intro ext) (simp add: fetch_feed_def split: sum.splits)

lemma feed_items_news_items [simp]:
  "feed_items E (self\<lparr>news_items := xs\<rparr>) = feed_items E self"
  by (intro ext) (simp add: feed_items_def)

lemma feed_entries_count_news_items [simp]:
  "feed_entries_count E (self\<lparr>news_items := xs\<rparr>) = feed_entries_count E self"
  by (intro ext) (simp add: feed_entries_count_def)

text \<open>One entry: what an appended item records, and when the body raises.\<close>

lemma fetch_feed_entry_Some:
  assumes "fetch_feed_entry E self fd e = Inr (Some n)"
  shows "\<exists>d. entry_title e = Some (title n) \<and> get_description e = Inr d \<and>
           title n \<noteq> [] \<and> url n \<noteq> [] \<and> is_related_to_automation E self (title n) d \<and>
           description n = truncate_description (strip_tags d) \<and>
           source n = feed_name fd \<and> date n = get_pub_date E e"
  using assms
  by (auto simp: fetch_feed_entry_def Let_def split: option.splits sum.splits if_splits)

lemma fetch_feed_entry_raises_iff:
  "isl (fetch_feed_entry E self fd e) \<longleftrightarrow> entry_title e = None \<or> isl (get_description e)"
  by (auto simp: fetch_feed_entry_def Let_def split: option.splits sum.splits if_splits)

text \<open>The loop over the entries appends the accepted items in the order of the feed.\<close>

lemma fetch_feed_entries_Inr:
  "fetch_feed_entries E self fd es acc = Inr its \<Longrightarrow>
   its = acc @ List.map_filter (entry_item E self fd) es"
proof (induction es arbitrary: acc)
  case Nil
  then show ?case by (simp add: List.map_filter_simps)
next
  case (Cons e es)
  show ?case
  proof (cases "fetch_feed_entry E self fd e")
    case (Inl x)
    with Cons.prems show ?thesis by simp
  next
    case (Inr r)
    show ?thesis
    proof (cases r)
      case None
      with Inr Cons.prems have "fetch_feed_entries E self fd es acc = Inr its" by simp
      from Cons.IH [OF this] Inr None show ?thesis
        by (simp add: List.map_filter_simps entry_item_def)
    next
      case (Some item)
      with Inr Cons.prems have "fetch_feed_entries E self fd es (acc @ [item]) = Inr its" by simp
      from Cons.IH [OF this] Inr Some show ?thesis
        by (simp add: List.map_filter_simps entry_item_def)
    qed
  qed
qed

lemma fetch_feed_entries_raises_iff:
  "isl (fetch_feed_entries E self fd es acc) \<longleftrightarrow> (\<exists>e \<in> set es. isl (fetch_feed_entry E self fd e))"
  by (induction es arbitrary: acc) (auto split: sum.splits option.splits)

lemma fetch_feed_raises_iff:
  assumes "feedparser_parse E (feed_url fd) = Inr es"
  shows "isl (fetch_feed E self fd) \<longleftrightarrow>
         (\<exists>e \<in> set es. entry_title e = None \<or> isl (get_description e))"
proof -
  have "isl (fetch_feed E self fd) \<longleftrightarrow> isl (fetch_feed_entries E self fd es [])"
    using assms by (simp add: fetch_feed_def split: sum.splits)
  then show ?thesis
    by (simp add: fetch_feed_entries_raises_iff fetch_feed_entry_raises_iff)
qed

lemma feed_items_in_feed_order:
  assumes "feedparser_parse E (feed_url fd) = Inr es" and "\<not> isl (fetch_feed E self fd)"
  shows "feed_items E self fd = List.map_filter (entry_item E self fd) es"
proof -
  from assms obtain its where f: "fetch_feed_entries E self fd es [] = Inr its"
    by (auto simp: fetch_feed_def split: sum.splits)
  with assms(1) have "feed_items E self fd = its"
    by (simp add: feed_items_def fetch_feed_def)
  with fetch_feed_entries_Inr [OF f] show ?thesis by simp
qed

lemma feed_items_origin:
  assumes "n \<in> set (feed_items E self fd)"
  shows "\<exists>es e. feedparser_parse E (feed_url fd) = Inr es \<and> e \<in> set es \<and>
           fetch_feed_entry E self fd e = Inr (Some n)"
proof -
  from assms obtain es its where p: "feedparser_parse E (feed_url fd) = Inr es"
    and f: "fetch_feed_entries E self fd es [] = Inr its" and n: "n \<in> set its"
    by (auto simp: feed_items_def fetch_feed_def split: sum.splits)
  from fetch_feed_entries_Inr [OF f] n
  have "n \<in> set (List.map_filter (entry_item E self fd) es)" by simp
  then obtain e where "e \<in> set es" "entry_item E self fd e = Some n"
    by (auto simp: List.map_filter_def)
  with p show ?thesis
    by (auto simp: entry_item_def split: sum.splits)
qed

text \<open>
  The loop over the feeds: a feed that raises adds one to the failures and nothing else;
  every other feed adds its items, its entry count and one to the successes.
\<close>

lemma fetch_news_loop_eq:
  "fetch_news_loop E fds (self, c) =
     (self\<lparr>news_items := news_items self @ concat (map (feed_items E self) fds)\<rparr>,
      c\<lparr>total_entries_checked :=
           total_entries_checked c + sum_list (map (feed_entries_count E self) fds),
        successful_feeds :=
           successful_feeds c + int (length (filter (\<lambda>fd. \<not> isl (fetch_feed E self fd)) fds)),
        failed_feeds :=
           failed_feeds c + int (length (filter (\<lambda>fd. isl (fetch_feed E self fd)) fds))\<rparr>)"
proof (induction fds arbitrary: self c)
  case Nil
  show ?case by simp
next
  case (Cons fd fds)
  show ?case
  proof (cases "fetch_feed E self fd")
    case (Inl x)
    then show ?thesis
      by (simp add: Cons feed_items_def feed_entries_count_def)
  next
    case (Inr r)
    obtain its n where r: "r = (its, n)" by (cases r)
    show ?thesis
      using Inr r by (simp add: Cons feed_items_def feed_entries_count_def Let_def)
  qed
qed

section \<open>Sorting and cutting\<close>

lemma sort_reverse_sorted: "sorted_wrt (\<lambda>a b. key a \<ge> key b) (sort_reverse key xs)"
proof -
  have "sorted (map key (sort_key key (rev xs)))" by (rule sorted_sort_key)
  then have "sorted_wrt (\<lambda>a b. key a \<le> key b) (sort_key key (rev xs))"
    by (simp add: sorted_wrt_map)
  then show ?thesis
    unfolding sort_reverse_def by (simp add: sorted_wrt_rev)
qed

lemma sort_reverse_stable:
  "filter (\<lambda>y. key y = k) (sort_reverse key xs) = filter (\<lambda>y. key y = k) xs"
proof -
  have "filter (\<lambda>y. key y = k) (sort_reverse key xs) =
      rev (filter (\<lambda>y. key y = k) (sort_key key (rev xs)))"
    by (simp add: sort_reverse_def rev_filter)
  also have "\<dots> = rev (filter (\<lambda>y. key y = k) (rev xs))"
    by (simp only: sort_key_stable)
  also have "\<dots> = filter (\<lambda>y. key y = k) xs"
    by (simp add: rev_filter)
  finally show ?thesis .
qed

lemma mset_sort_reverse [simp]: "mset (sort_reverse key xs) = mset xs"
  by (simp add: sort_reverse_def)

lemma length_sort_reverse [simp]: "length (sort_reverse key xs) = length xs"
  by (simp add: sort_reverse_def)

lemma set_sort_reverse [simp]: "set (sort_reverse key xs) = set xs"
  by (simp add: sort_reverse_def)

lemma sorted_wrt_take_part: "sorted_wrt R xs \<Longrightarrow> sorted_wrt R (take k xs)"
proof -
  assume "sorted_wrt R xs"
  then have "sorted_wrt R (take k xs @ drop k xs)" by simp
  then show ?thesis by (simp only: sorted_wrt_append)
qed

lemma limit_to_max_take: "\<exists>k. limit_to_max m xs = take k xs"
proof (cases "int (length xs) > m")
  case True
  then show ?thesis
    by (cases "m \<ge> 0") (auto simp: limit_to_max_def slice_to_def)
next
  case False
  then have "limit_to_max m xs = take (length xs) xs" by (simp add: limit_to_max_def)
  then show ?thesis by blast
qed

lemma limit_to_max_nonneg:
  assumes "0 \<le> m"
  shows "limit_to_max m xs = take (nat m) xs"
  using assms by (auto simp: limit_to_max_def slice_to_def)


text \<open>\<open>fetch_news\<close> as one equation.\<close>

lemma fetch_news_eq:
  "fetch_news E self =
     (self\<lparr>news_items := limit_to_max (max_results self) (sort_reverse date (accumulated E self))\<rparr>,
      limit_to_max (max_results self) (sort_reverse date (accumulated E self)),
      \<lparr>total_entries_checked = sum_list (map (feed_entries_count E self) (rss_feeds self)),
       successful_feeds = int (length (filter (\<lambda>fd. \<not> isl (fetch_feed E self fd)) (rss_feeds self))),
       failed_feeds = int (length (filter (\<lambda>fd. isl (fetch_feed E self fd)) (rss_feeds self)))\<rparr>)"
  by (simp add: fetch_news_def fetch_news_loop_eq limit_to_max_def accumulated_def Let_def)

section \<open>The date form\<close>

lemma is_digit_digit: "is_digit (digit n)"
  unfolding is_digit_def digit_def by arith

lemma Ymd_form_strftime: "Ymd_form (strftime_Ymd d)"
  by (simp add: Ymd_form_def strftime_Ymd_def str_def is_digit_digit)

section \<open>The example run\<close>

lemmas example_entries =
  entry_platform_def entry_sports_def entry_office_def no_attributes_def

lemmas run_entry =
  fetch_feed_entry_def get_description_def get_pub_date_def is_related_to_automation_def
  truncate_description_def strftime_Ymd_def digit_def english_markers_def space_def str_def
  example_env_def ascii_lower_def

lemma example_keywords:
  "keywords_list example_digest = [str ''automation platform'', str ''automate'']"
  by (simp add: example_digest_def init_def)

lemma example_entry_platform:
  assumes "keywords_list self = keywords_list example_digest"
  shows "fetch_feed_entry example_env self feed_A entry_platform = Inr (Some item_platform)"
  using assms unfolding example_keywords
  by (simp add: run_entry example_entries feed_A_def item_platform_def)

lemma example_entry_sports:
  assumes "keywords_list self = keywords_list example_digest"
  shows "fetch_feed_entry example_env self feed_A entry_sports = Inr None"
  using assms unfolding example_keywords
  by (simp add: run_entry example_entries feed_A_def)

lemma example_entry_office:
  assumes "keywords_list self = keywords_list example_digest"
  shows "fetch_feed_entry example_env self feed_C entry_office = Inr (Some item_office)"
  using assms unfolding example_keywords
  by (simp add: run_entry example_entries feed_C_def item_office_def)

lemma example_feed_A:
  assumes "keywords_list self = keywords_list example_digest"
  shows "fetch_feed example_env self feed_A = Inr ([item_platform], 2)"
proof -
  have "feedparser_parse example_env (feed_url feed_A) = Inr [entry_platform, entry_sports]"
    by (simp add: example_env_def feed_A_def str_def)
  then show ?thesis
    by (simp add: fetch_feed_def example_entry_platform [OF assms] example_entry_sports [OF assms])
qed

lemma example_feed_B:
  "fetch_feed example_env self feed_B = Inl (LibraryError (str ''timed out''))"
proof -
  have "feedparser_parse example_env (feed_url feed_B) = Inl (LibraryError (str ''timed out''))"
    by (simp add: example_env_def feed_B_def str_def)
  then show ?thesis by (simp add: fetch_feed_def)
qed

lemma example_feed_C:
  assumes "keywords_list self = keywords_list example_digest"
  shows "fetch_feed example_env self feed_C = Inr ([item_office], 1)"
proof -
  have "feedparser_parse example_env (feed_url feed_C) = Inr [entry_office]"
    by (simp add: example_env_def feed_C_def str_def)
  then show ?thesis
    by (simp add: fetch_feed_def example_entry_office [OF assms])
qed

lemma example_dates: "date item_platform < date item_office"
  by (simp add: item_platform_def item_office_def str_def)

text \<open>
  A run over the feeds \<open>A\<close>, \<open>B\<close> and \<open>C\<close>, from any stored collection and with any
  \<open>max_results\<close>: three entries read, two feeds fetched, one failed.
\<close>

lemma example_run:
  assumes "keywords_list self = keywords_list example_digest"
    and "rss_feeds self = [feed_A, feed_B, feed_C]"
  shows "fetch_news example_env self =
     (self\<lparr>news_items := limit_to_max (max_results self)
                 (sort_reverse date (news_items self @ [item_platform, item_office]))\<rparr>,
      limit_to_max (max_results self)
        (sort_reverse date (news_items self @ [item_platform, item_office])),
      \<lparr>total_entries_checked = 3, successful_feeds = 2, failed_feeds = 1\<rparr>)"
  by (simp add: fetch_news_eq accumulated_def feed_items_def feed_entries_count_def assms(2)
      example_feed_A [OF assms(1)] example_feed_B example_feed_C [OF assms(1)])

lemma example_sorted:
  "sort_reverse date [item_platform, item_office] = [item_office, item_platform]"
  using example_dates by (simp add: sort_reverse_def)

lemma example_sorted_twice:
  "sort_reverse date [item_office, item_platform, item_platform, item_office] =
     [item_office, item_office, item_platform, item_platform]"
  using example_dates by (simp add: sort_reverse_def)

lemma example_first_run:
  "fetch_news example_env example_digest =
     (example_digest\<lparr>news_items := [item_office, item_platform]\<rparr>,
      [item_office, item_platform],
      \<lparr>total_entries_checked = 3, successful_feeds = 2, failed_feeds = 1\<rparr>)"
proof -
  have "news_items example_digest = []" "max_results example_digest = 10"
    "rss_feeds example_digest = [feed_A, feed_B, feed_C]"
    by (simp_all add: example_digest_def init_def)
  then show ?thesis
    by (simp add: example_run example_sorted limit_to_max_def)
qed

lemma example_run_max:
  "fetch_news example_env (example_digest\<lparr>max_results := m\<rparr>) =
     (example_digest\<lparr>max_results := m,
                     news_items := limit_to_max m [item_office, item_platform]\<rparr>,
      limit_to_max m [item_office, item_platform],
      \<lparr>total_entries_checked = 3, successful_feeds = 2, failed_feeds = 1\<rparr>)"
proof -
  have "news_items example_digest = []" "rss_feeds example_digest = [feed_A, feed_B, feed_C]"
    by (simp_all add: example_digest_def init_def)
  then show ?thesis
    by (simp add: example_run example_sorted)
qed

lemma example_second_run:
  "fetch_news example_env (example_digest\<lparr>news_items := [item_office, item_platform]\<rparr>) =
     (example_digest\<lparr>news_items := [item_office, item_office, item_platform, item_platform]\<rparr>,
      [item_office, item_office, item_platform, item_platform],
      \<lparr>total_entries_checked = 3, successful_feeds = 2, failed_feeds = 1\<rparr>)"
proof -
  have "max_results example_digest = 10" "rss_feeds example_digest = [feed_A, feed_B, feed_C]"
    by (simp_all add: example_digest_def init_def)
  then show ?thesis
    by (simp add: example_run example_sorted_twice limit_to_max_def)
qed

section \<open>The claims\<close>

text \<open>
  C1. The relevance filter accepts a title and a description exactly when, on the
  lowered text of the title, a space and the description, at least two of the ten
  marker words are space-delimited tokens (each marker counted once) and the lowering
  of at least one configured keyword is a substring.
\<close>

theorem relevance_filter_refines_spec:
  "length english_markers = 10 \<and>
   (is_related_to_automation E self ttl descr \<longleftrightarrow>
    relevance_filter_spec E (keywords_list self) ttl descr)"
proof -
  define tc where "tc = str_lower E (ttl @ [space] @ descr)"
  let ?P = "\<lambda>w. contains ([space] @ tc @ [space]) ([space] @ w @ [space])"
  have tok: "?P m \<longleftrightarrow> occurs_as_token m tc" if "m \<in> set english_markers" for m
    using space_notin_markers [OF that]
    by (simp only: contains_sublist occurs_as_token_def split_on_iff) simp
  have "length (filter ?P english_markers) = card {m \<in> set english_markers. ?P m}"
    by (rule length_filter_card [OF distinct_english_markers])
  also have "{m \<in> set english_markers. ?P m} = {m \<in> set english_markers. occurs_as_token m tc}"
    using tok by blast
  finally have cnt: "int (length (filter ?P english_markers)) =
      int (card {m \<in> set english_markers. occurs_as_token m tc})" by simp
  have eng: "(2 \<le> sum_list (concat (map (\<lambda>w. if ?P w then [1::int] else []) english_markers)))
      \<longleftrightarrow> 2 \<le> card {m \<in> set english_markers. occurs_as_token m tc}"
    by (simp only: count_comprehension cnt) simp
  have kw: "list_ex (\<lambda>keyword. contains tc (str_lower E keyword)) (keywords_list self)
      \<longleftrightarrow> (\<exists>k \<in> set (keywords_list self). sublist (str_lower E k) tc)"
    by (simp only: list_ex_iff contains_sublist)
  have "is_related_to_automation E self ttl descr \<longleftrightarrow>
      relevance_filter_spec E (keywords_list self) ttl descr"
    unfolding is_related_to_automation_def relevance_filter_spec_def Let_def tc_def [symmetric]
      eng kw by blast
  moreover have "length english_markers = 10"
    by (simp add: english_markers_def)
  ultimately show ?thesis by simp
qed

text \<open>
  The title ``The new automation platform is here'' holds the markers ``the'' and ``is''
  and the keyword ``automation platform'': the code accepts it, and so does the
  specification.
\<close>

theorem relevance_filter_refines_spec_witness:
  "is_related_to_automation example_env example_digest
     (str ''The new automation platform is here'') [] \<and>
   relevance_filter_spec example_env (keywords_list example_digest)
     (str ''The new automation platform is here'') []"
proof -
  have "is_related_to_automation example_env example_digest
      (str ''The new automation platform is here'') []"
    by (simp add: is_related_to_automation_def example_env_def example_digest_def init_def
        ascii_lower_def str_def space_def english_markers_def)
  then show ?thesis
    using relevance_filter_refines_spec [of example_env example_digest
        "str ''The new automation platform is here''" "[]"]
    by simp
qed




text \<open>
  C3. The list that \<open>fetch_news\<close> returns is in non-increasing order of the date strings
  (compared lexicographically, code point by code point): each item's date is at most
  the date of the item before it. The items of one date stand in the order in which
  they were accumulated: they are an initial part of the items of that date in the
  collection before sorting, which is the stored items followed by the items of the
  feeds in listed order, each feed's items in the order of its entries.
\<close>

theorem result_sorted_by_date_stable:
  assumes "fetch_news E self = (self', out, c)"
  shows "(Suc i < length out \<longrightarrow> date (out ! Suc i) \<le> date (out ! i)) \<and>
         sorted_wrt (\<lambda>a b. date b \<le> date a) out \<and>
         prefix (filter (\<lambda>x. date x = d) out) (filter (\<lambda>x. date x = d) (accumulated E self)) \<and>
         accumulated E self = news_items self @ concat (map (feed_items E self) (rss_feeds self)) \<and>
         (feedparser_parse E (feed_url fd) = Inr es \<and> \<not> isl (fetch_feed E self fd) \<longrightarrow>
            feed_items E self fd = List.map_filter (entry_item E self fd) es) \<and>
         ((a < b) = ((a, b) \<in> lexord {(x, y). x < y}))"
proof -
  let ?S = "sort_reverse date (accumulated E self)"
  from assms have "out = limit_to_max (max_results self) ?S" by (simp add: fetch_news_eq)
  then obtain k where out: "out = take k ?S" using limit_to_max_take by blast
  have s: "sorted_wrt (\<lambda>a b. date b \<le> date a) out"
    unfolding out by (rule sorted_wrt_take_part [OF sort_reverse_sorted])
  have adj: "date (out ! Suc i) \<le> date (out ! i)" if "Suc i < length out"
    using sorted_wrt_nth_less [OF s, of i "Suc i"] that by simp
  have "prefix (filter (\<lambda>x. date x = d) out) (filter (\<lambda>x. date x = d) ?S)"
    unfolding out by (rule filter_mono_prefix [OF take_is_prefix])
  then have st: "prefix (filter (\<lambda>x. date x = d) out) (filter (\<lambda>x. date x = d) (accumulated E self))"
    by (simp only: sort_reverse_stable)
  have lex: "(a < b) = ((a, b) \<in> lexord {(x, y). x < y})"
    by (simp add: list_less_def)
  from adj s st lex show ?thesis
    by (simp add: accumulated_def feed_items_in_feed_order)
qed

text \<open>
  The example run returns the item of 2024-03-07 before the item of 2024-03-05, and
  feed \<open>A\<close> gives its items in the order of its two entries.
\<close>

theorem result_sorted_by_date_stable_witness:
  "fst (snd (fetch_news example_env example_digest)) = [item_office, item_platform] \<and>
   date ([item_office, item_platform] ! Suc 0) \<le> date ([item_office, item_platform] ! 0) \<and>
   sorted_wrt (\<lambda>a b. date b \<le> date a) [item_office, item_platform] \<and>
   prefix (filter (\<lambda>x. date x = date item_office) [item_office, item_platform])
     (filter (\<lambda>x. date x = date item_office) (accumulated example_env example_digest)) \<and>
   feed_items example_env example_digest feed_A =
     List.map_filter (entry_item example_env example_digest feed_A) [entry_platform, entry_sports]"
proof -
  have p: "feedparser_parse example_env (feed_url feed_A) = Inr [entry_platform, entry_sports]"
    by (simp add: example_env_def feed_A_def str_def)
  have f: "\<not> isl (fetch_feed example_env example_digest feed_A)"
    by (simp add: example_feed_A)
  have l: "Suc 0 < length [item_office, item_platform]" by simp
  have r: "fst (snd (fetch_news example_env example_digest)) = [item_office, item_platform]"
    by (simp add: example_first_run)
  from result_sorted_by_date_stable [OF example_first_run, of 0 "date item_office" feed_A
      "[entry_platform, entry_sports]" "[]" "[]"] p f l r
  show ?thesis by blast
qed

text \<open>
  C4, amended. When \<open>max_results\<close> is not negative, the list that \<open>fetch_news\<close> returns
  has at most \<open>max_results\<close> items, and when more items were accumulated, it is exactly
  the first \<open>max_results\<close> items of the sorted collection.
\<close>

theorem result_length_bounded:
  assumes "0 \<le> max_results self" and "fetch_news E self = (self', out, c)"
  shows "int (length out) \<le> max_results self \<and>
         (int (length (accumulated E self)) > max_results self \<longrightarrow>
            out = take (nat (max_results self)) (sort_reverse date (accumulated E self)) \<and>
            int (length out) = max_results self)"
proof -
  from assms(2) have "out = limit_to_max (max_results self) (sort_reverse date (accumulated E self))"
    by (simp add: fetch_news_eq)
  then have "out = take (nat (max_results self)) (sort_reverse date (accumulated E self))"
    by (simp only: limit_to_max_nonneg [OF assms(1)])
  then show ?thesis using assms(1) by auto
qed

text \<open>With \<open>max_results = 1\<close>, the run over the three feeds keeps the newer of its two items.\<close>

theorem result_length_bounded_witness:
  "0 \<le> max_results (example_digest\<lparr>max_results := 1\<rparr>) \<and>
   fst (snd (fetch_news example_env (example_digest\<lparr>max_results := 1\<rparr>))) = [item_office] \<and>
   int (length (accumulated example_env (example_digest\<lparr>max_results := 1\<rparr>))) > 1 \<and>
   [item_office] = take 1 (sort_reverse date
       (accumulated example_env (example_digest\<lparr>max_results := 1\<rparr>)))"
proof -
  have r: "fetch_news example_env (example_digest\<lparr>max_results := 1\<rparr>) =
      (example_digest\<lparr>max_results := 1, news_items := [item_office]\<rparr>, [item_office],
       \<lparr>total_entries_checked = 3, successful_feeds = 2, failed_feeds = 1\<rparr>)"
    by (simp add: example_run_max limit_to_max_def slice_to_def)
  have h: "0 \<le> max_results (example_digest\<lparr>max_results := 1\<rparr>)" by simp
  have a: "accumulated example_env (example_digest\<lparr>max_results := 1\<rparr>) = [item_platform, item_office]"
    by (simp add: accumulated_def feed_items_def example_feed_A example_feed_B example_feed_C
        example_digest_def init_def)
  from result_length_bounded [OF h r] show ?thesis
    by (simp add: r a)
qed

text \<open>
  With \<open>max_results = -1\<close> the slice drops the last of the two items and keeps one, which is
  more than \<open>max_results\<close>.
\<close>

theorem negative_max_results_counterexample:
  "\<not> int (length (fst (snd (fetch_news example_env (example_digest\<lparr>max_results := - 1\<rparr>)))))
       \<le> max_results (example_digest\<lparr>max_results := - 1\<rparr>)"
  by (simp add: example_run_max limit_to_max_def slice_to_def)

text \<open>
  C5, amended. A feed whose fetch raises adds one to the count of failed feeds and nothing
  to the collection, and the loop goes on: the failed count is the number of feeds that
  raise, the succeeded count the number of the others, and the result is the sorted and
  cut collection of the stored items and the items of the feeds that did not raise. For
  three feeds of which only the second raises, the counts are 1 and 2 and the result
  is the sorted collection of the stored items and the items of the first and the third
  feed, cut to \<open>max_results\<close>: exactly the items of those two feeds, when nothing was
  stored before and \<open>max_results\<close> does not cut.
\<close>

theorem failed_feed_counted_and_skipped:
  assumes "fetch_news E self = (self', out, c)"
  shows "failed_feeds c = int (length (filter (\<lambda>fd. isl (fetch_feed E self fd)) (rss_feeds self))) \<and>
         successful_feeds c =
           int (length (filter (\<lambda>fd. \<not> isl (fetch_feed E self fd)) (rss_feeds self))) \<and>
         out = limit_to_max (max_results self)
                 (sort_reverse date (news_items self @ concat (map (feed_items E self) (rss_feeds self)))) \<and>
         (isl (fetch_feed E self fd) \<longrightarrow> feed_items E self fd = []) \<and>
         (rss_feeds self = [f1, f2, f3] \<and> fetch_feed E self f1 = Inr (i1, n1) \<and>
          fetch_feed E self f2 = Inl x \<and> fetch_feed E self f3 = Inr (i3, n3) \<longrightarrow>
            failed_feeds c = 1 \<and> successful_feeds c = 2 \<and>
            out = limit_to_max (max_results self) (sort_reverse date (news_items self @ i1 @ i3)) \<and>
            (news_items self = [] \<and> int (length (i1 @ i3)) \<le> max_results self \<longrightarrow>
               mset out = mset i1 + mset i3))"
proof -
  from assms have
    f: "failed_feeds c = int (length (filter (\<lambda>fd. isl (fetch_feed E self fd)) (rss_feeds self)))"
    and s: "successful_feeds c =
           int (length (filter (\<lambda>fd. \<not> isl (fetch_feed E self fd)) (rss_feeds self)))"
    and out: "out = limit_to_max (max_results self)
                 (sort_reverse date (news_items self @ concat (map (feed_items E self) (rss_feeds self))))"
    by (auto simp: fetch_news_eq accumulated_def)
  have none: "feed_items E self fd = []" if "isl (fetch_feed E self fd)"
    using that by (cases "fetch_feed E self fd") (simp_all add: feed_items_def)
  have three: "failed_feeds c = 1 \<and> successful_feeds c = 2 \<and>
      out = limit_to_max (max_results self) (sort_reverse date (news_items self @ i1 @ i3)) \<and>
      (news_items self = [] \<and> int (length (i1 @ i3)) \<le> max_results self \<longrightarrow>
         mset out = mset i1 + mset i3)"
    if "rss_feeds self = [f1, f2, f3]" "fetch_feed E self f1 = Inr (i1, n1)"
       "fetch_feed E self f2 = Inl x" "fetch_feed E self f3 = Inr (i3, n3)"
  proof -
    have o: "out = limit_to_max (max_results self) (sort_reverse date (news_items self @ i1 @ i3))"
      using out that by (simp add: feed_items_def)
    moreover have "mset out = mset i1 + mset i3"
      if "news_items self = []" "int (length (i1 @ i3)) \<le> max_results self"
      using o that by (simp add: limit_to_max_def)
    ultimately show ?thesis using f s that by simp
  qed
  from f s out none three show ?thesis by blast
qed

text \<open>
  The example object lists the feeds \<open>A\<close>, \<open>B\<close> and \<open>C\<close>, and the fetch of \<open>B\<close> times out:
  one failure, two successes, and the items of \<open>A\<close> and \<open>C\<close>.
\<close>

theorem failed_feed_counted_and_skipped_witness:
  "rss_feeds example_digest = [feed_A, feed_B, feed_C] \<and>
   fetch_feed example_env example_digest feed_A = Inr ([item_platform], 2) \<and>
   fetch_feed example_env example_digest feed_B = Inl (LibraryError (str ''timed out'')) \<and>
   fetch_feed example_env example_digest feed_C = Inr ([item_office], 1) \<and>
   failed_feeds (snd (snd (fetch_news example_env example_digest))) = 1 \<and>
   successful_feeds (snd (snd (fetch_news example_env example_digest))) = 2 \<and>
   mset (fst (snd (fetch_news example_env example_digest))) = mset [item_platform] + mset [item_office]"
proof -
  have fs: "rss_feeds example_digest = [feed_A, feed_B, feed_C]"
    and e: "news_items example_digest = []" and m: "max_results example_digest = 10"
    by (simp_all add: example_digest_def init_def)
  note a = example_feed_A [of example_digest, OF refl]
  note b = example_feed_B [of example_digest]
  note c = example_feed_C [of example_digest, OF refl]
  have k: "int (length ([item_platform] @ [item_office])) \<le> max_results example_digest"
    by (simp add: m)
  note t = failed_feed_counted_and_skipped [OF example_first_run, of feed_B feed_A feed_B feed_C
      "[item_platform]" 2 "LibraryError (str ''timed out'')" "[item_office]" 1]
  from t fs a b c e k
  have "mset [item_office, item_platform] = mset [item_platform] + mset [item_office]"
    by blast
  moreover from t fs a b c
  have "failed_feeds \<lparr>total_entries_checked = 3, successful_feeds = 2, failed_feeds = 1\<rparr> = 1 \<and>
        successful_feeds \<lparr>total_entries_checked = 3, successful_feeds = 2, failed_feeds = 1\<rparr> = 2"
    by blast
  ultimately show ?thesis
    using fs a b c by (simp only: example_first_run fst_conv snd_conv)
qed

text \<open>
  With \<open>max_results = 1\<close> and nothing stored, the same three feeds give a result without
  the item of the first feed: the cut keeps the newer item of the third feed only.
\<close>

theorem cut_drops_first_feed_counterexample:
  "rss_feeds (example_digest\<lparr>max_results := 1\<rparr>) = [feed_A, feed_B, feed_C] \<and>
   news_items (example_digest\<lparr>max_results := 1\<rparr>) = [] \<and>
   fetch_feed example_env (example_digest\<lparr>max_results := 1\<rparr>) feed_A = Inr ([item_platform], 2) \<and>
   isl (fetch_feed example_env (example_digest\<lparr>max_results := 1\<rparr>) feed_B) \<and>
   fetch_feed example_env (example_digest\<lparr>max_results := 1\<rparr>) feed_C = Inr ([item_office], 1) \<and>
   item_platform \<notin> set (fst (snd (fetch_news example_env (example_digest\<lparr>max_results := 1\<rparr>))))"
proof -
  have k: "keywords_list (example_digest\<lparr>max_results := 1\<rparr>) = keywords_list example_digest"
    by simp
  have d: "rss_feeds (example_digest\<lparr>max_results := 1\<rparr>) = [feed_A, feed_B, feed_C]"
    "news_items (example_digest\<lparr>max_results := 1\<rparr>) = []"
    by (simp_all add: example_digest_def init_def)
  have r: "fst (snd (fetch_news example_env (example_digest\<lparr>max_results := 1\<rparr>))) = [item_office]"
    by (simp add: example_run_max limit_to_max_def slice_to_def)
  have n: "item_platform \<noteq> item_office"
    using example_dates by auto
  from d example_feed_A [OF k] example_feed_B [of "example_digest\<lparr>max_results := 1\<rparr>"]
    example_feed_C [OF k] r n
  show ?thesis by simp
qed

text \<open>
  C6. Every item that \<open>fetch_feed\<close> returns was built from an entry of the feed, and its
  stored description is the entry's description with the tags stripped when that has
  at most 200 characters, and otherwise its first 200 characters followed by three
  dots, 203 characters in all.
\<close>

theorem description_truncation:
  assumes "fetch_feed E self fd = Inr (its, n)" and "item \<in> set its"
  shows "\<exists>es e d. feedparser_parse E (feed_url fd) = Inr es \<and> e \<in> set es \<and>
           entry_title e = Some (title item) \<and> get_description e = Inr d \<and>
           (if length (strip_tags d) > 200
            then description item = take 200 (strip_tags d) @ str ''...'' \<and>
                 length (description item) = 203
            else description item = strip_tags d)"
proof -
  from assms have "item \<in> set (feed_items E self fd)" by (simp add: feed_items_def)
  from feed_items_origin [OF this] obtain es e where
    p: "feedparser_parse E (feed_url fd) = Inr es" and e: "e \<in> set es"
    and f: "fetch_feed_entry E self fd e = Inr (Some item)" by blast
  from fetch_feed_entry_Some [OF f] obtain d where
    d: "entry_title e = Some (title item)" "get_description e = Inr d"
       "description item = truncate_description (strip_tags d)" by blast
  have "if length (strip_tags d) > 200
        then description item = take 200 (strip_tags d) @ str ''...'' \<and>
             length (description item) = 203
        else description item = strip_tags d"
    using d(3) by (simp add: truncate_description_def str_def)
  with p e d show ?thesis by blast
qed

text \<open>
  The description \<open><p>It is <b>new</b></p>\<close> of the first entry of feed \<open>A\<close> is stored as
  \<open>It is new\<close>; a text of 250 characters is cut to 200 and the dots.
\<close>

theorem description_truncation_witness:
  "fetch_feed example_env example_digest feed_A = Inr ([item_platform], 2) \<and>
   description item_platform = str ''It is new'' \<and>
   truncate_description (replicate 250 120) = replicate 200 120 @ str ''...'' \<and>
   (\<exists>es e d. feedparser_parse example_env (feed_url feed_A) = Inr es \<and> e \<in> set es \<and>
      entry_title e = Some (title item_platform) \<and> get_description e = Inr d \<and>
      (if length (strip_tags d) > 200
       then description item_platform = take 200 (strip_tags d) @ str ''...'' \<and>
            length (description item_platform) = 203
       else description item_platform = strip_tags d))"
proof -
  note a = example_feed_A [of example_digest, OF refl]
  have i: "item_platform \<in> set [item_platform]" by simp
  have t: "truncate_description (replicate 250 120) = replicate 200 120 @ str ''...''"
    by (simp add: truncate_description_def)
  from description_truncation [OF a i] a t show ?thesis
    by (simp add: item_platform_def)
qed

text \<open>
  C7. What the code does with an entry that has no title: reading \<open>entry.title\<close> raises
  before any check, the exception leaves the loop, and \<open>fetch_feed\<close> raises for the whole
  feed, whatever the other entries hold. No item of the feed reaches the collection.
\<close>

theorem entry_without_title_fails_feed:
  assumes "feedparser_parse E (feed_url fd) = Inr es" and "e \<in> set es"
    and "entry_title e = None"
  shows "isl (fetch_feed E self fd) \<and> feed_items E self fd = []"
proof -
  from assms have r: "isl (fetch_feed E self fd)"
    using fetch_feed_raises_iff [OF assms(1), of self] by blast
  then have "feed_items E self fd = []"
    by (cases "fetch_feed E self fd") (simp_all add: feed_items_def)
  with r show ?thesis by simp
qed

text \<open>
  The feed at \<open>d\<close> holds an entry with neither title nor link, and then the entry that feed
  \<open>A\<close> accepts: the fetch raises \<open>AttributeError\<close>, and the accepted entry is lost with it.
\<close>

theorem entry_without_title_fails_feed_witness:
  "feedparser_parse example_env (feed_url feed_D) = Inr [no_attributes, entry_platform] \<and>
   entry_title no_attributes = None \<and> entry_link no_attributes = None \<and>
   fetch_feed example_env example_digest feed_D = Inl (AttributeError (str ''title'')) \<and>
   isl (fetch_feed example_env example_digest feed_D) \<and>
   feed_items example_env example_digest feed_D = [] \<and>
   fetch_feed_entry example_env example_digest feed_A entry_platform = Inr (Some item_platform)"
proof -
  have p: "feedparser_parse example_env (feed_url feed_D) = Inr [no_attributes, entry_platform]"
    by (simp add: example_env_def feed_D_def str_def)
  have m: "no_attributes \<in> set [no_attributes, entry_platform]" by simp
  have t: "entry_title no_attributes = None" and l: "entry_link no_attributes = None"
    by (simp_all add: no_attributes_def)
  have "fetch_feed_entry example_env example_digest feed_D no_attributes =
      Inl (AttributeError (str ''title''))"
    by (simp add: fetch_feed_entry_def t)
  with p have v: "fetch_feed example_env example_digest feed_D = Inl (AttributeError (str ''title''))"
    by (simp add: fetch_feed_def)
  from entry_without_title_fails_feed [OF p m t, of example_digest] p t l v
    example_entry_platform [of example_digest, OF refl]
  show ?thesis by blast
qed

text \<open>
  C8. When the structured publication time of an entry is absent, \<open>None\<close> or fails to
  format, and its publication date string is absent or fails to parse, the date of the
  entry is the date of the clock in the form \<open>YYYY-MM-DD\<close>. Nothing is raised for it: the
  loop body raises only for a missing title or a content block without a value, and so
  does the feed; an item built from the entry carries that date.
\<close>

theorem unparseable_date_defaults_to_today:
  assumes "case entry_published_parsed e of Some (Some t) \<Rightarrow> isl (time_strftime E t) | _ \<Rightarrow> True"
    and "case entry_pubDate e of Some s \<Rightarrow> isl (pd_to_datetime E s) | None \<Rightarrow> True"
    and "valid_datetime (datetime_now E)"
  shows "get_pub_date E e = strftime_Ymd (datetime_now E) \<and>
         Ymd_form (get_pub_date E e) \<and>
         (isl (fetch_feed_entry E self fd e) \<longleftrightarrow> entry_title e = None \<or> isl (get_description e)) \<and>
         (fetch_feed_entry E self fd e = Inr (Some item) \<longrightarrow>
            date item = strftime_Ymd (datetime_now E)) \<and>
         (feedparser_parse E (feed_url fd) = Inr es \<longrightarrow>
            (isl (fetch_feed E self fd) \<longleftrightarrow>
             (\<exists>e' \<in> set es. entry_title e' = None \<or> isl (get_description e'))))"
proof -
  have pd: "get_pub_date E e = strftime_Ymd (datetime_now E)"
    using assms(1,2)
    by (auto simp: get_pub_date_def Let_def isl_def split: option.splits sum.splits)
  moreover have "date item = get_pub_date E e"
    if "fetch_feed_entry E self fd e = Inr (Some item)"
    using fetch_feed_entry_Some [OF that] by blast
  moreover have "isl (fetch_feed E self fd) \<longleftrightarrow>
      (\<exists>e' \<in> set es. entry_title e' = None \<or> isl (get_description e'))"
    if "feedparser_parse E (feed_url fd) = Inr es"
    by (rule fetch_feed_raises_iff [OF that])
  ultimately show ?thesis
    by (simp add: Ymd_form_strftime fetch_feed_entry_raises_iff)
qed

text \<open>
  The entry of feed \<open>C\<close> has no structured time, and its date string \<open>soon\<close> does not
  parse: its item is dated 2024-03-07, the day of the clock.
\<close>

theorem unparseable_date_defaults_to_today_witness:
  "entry_published_parsed entry_office = None \<and>
   entry_pubDate entry_office = Some (str ''soon'') \<and>
   isl (pd_to_datetime example_env (str ''soon'')) \<and>
   valid_datetime (datetime_now example_env) \<and>
   get_pub_date example_env entry_office = str ''2024-03-07'' \<and>
   Ymd_form (get_pub_date example_env entry_office) \<and>
   fetch_feed_entry example_env example_digest feed_C entry_office = Inr (Some item_office) \<and>
   date item_office = str ''2024-03-07''"
proof -
  have a: "entry_published_parsed entry_office = None"
    and b: "entry_pubDate entry_office = Some (str ''soon'')"
    by (simp_all add: entry_office_def no_attributes_def)
  have c: "isl (pd_to_datetime example_env (str ''soon''))"
    by (simp add: example_env_def)
  have h1: "case entry_published_parsed entry_office of
      Some (Some t) \<Rightarrow> isl (time_strftime example_env t) | _ \<Rightarrow> True"
    by (simp add: a)
  have h2: "case entry_pubDate entry_office of
      Some s \<Rightarrow> isl (pd_to_datetime example_env s) | None \<Rightarrow> True"
    by (simp add: b c)
  have h3: "valid_datetime (datetime_now example_env)"
    by (simp add: valid_datetime_def example_env_def)
  have today: "strftime_Ymd (datetime_now example_env) = str ''2024-03-07''"
    by (simp add: strftime_Ymd_def example_env_def digit_def str_def)
  have d: "date item_office = str ''2024-03-07''"
    by (simp add: item_office_def)
  note t = unparseable_date_defaults_to_today [OF h1 h2 h3, of example_digest feed_C item_office "[]"]
  from t have "get_pub_date example_env entry_office = strftime_Ymd (datetime_now example_env)"
    and "Ymd_form (get_pub_date example_env entry_office)" by blast+
  with a b c h3 d today example_entry_office [of example_digest, OF refl]
  show ?thesis by simp
qed

text \<open>
  C9. \<open>fetch_news\<close> starts from the stored collection and never clears it: the list it
  returns is also the list it stores, and it is the stored items followed by the newly
  fetched ones, sorted by date and cut to \<open>max_results\<close>. When the cut removes nothing,
  every stored item is in the result beside every new one. A second call on the same
  object starts from the result of the first.
\<close>

theorem fetch_news_accumulates:
  assumes "fetch_news E self = (self', out, c)"
  shows "news_items self' = out \<and>
         out = limit_to_max (max_results self)
                 (sort_reverse date (news_items self @ concat (map (feed_items E self) (rss_feeds self)))) \<and>
         (int (length (accumulated E self)) \<le> max_results self \<longrightarrow>
            mset out = mset (news_items self) + mset (concat (map (feed_items E self) (rss_feeds self)))) \<and>
         (fetch_news E self' = (self'', out', c') \<longrightarrow>
            out' = limit_to_max (max_results self)
                     (sort_reverse date (out @ concat (map (feed_items E self) (rss_feeds self)))))"
proof -
  let ?new = "concat (map (feed_items E self) (rss_feeds self))"
  from assms have
    self': "self' = self\<lparr>news_items := out\<rparr>"
    and out: "out = limit_to_max (max_results self) (sort_reverse date (news_items self @ ?new))"
    by (auto simp: fetch_news_eq accumulated_def)
  have "mset out = mset (news_items self) + mset ?new"
    if "int (length (accumulated E self)) \<le> max_results self"
    using out that by (simp add: limit_to_max_def accumulated_def)
  moreover have "out' = limit_to_max (max_results self) (sort_reverse date (out @ ?new))"
    if "fetch_news E self' = (self'', out', c')"
    using that unfolding self' by (auto simp: fetch_news_eq accumulated_def)
  ultimately show ?thesis using self' out by simp
qed

text \<open>
  Two calls on the example object: the second call returns four items, the two of the
  first call and the same two fetched again.
\<close>

theorem fetch_news_accumulates_witness:
  "fst (snd (fetch_news example_env example_digest)) = [item_office, item_platform] \<and>
   news_items (fst (fetch_news example_env example_digest)) = [item_office, item_platform] \<and>
   fst (snd (fetch_news example_env (fst (fetch_news example_env example_digest)))) =
     [item_office, item_office, item_platform, item_platform] \<and>
   [item_office, item_office, item_platform, item_platform] =
     limit_to_max (max_results example_digest)
       (sort_reverse date ([item_office, item_platform] @
          concat (map (feed_items example_env example_digest) (rss_feeds example_digest))))"
proof -
  note t = fetch_news_accumulates [OF example_first_run,
      of "example_digest\<lparr>news_items := [item_office, item_office, item_platform, item_platform]\<rparr>"
         "[item_office, item_office, item_platform, item_platform]"
         "\<lparr>total_entries_checked = 3, successful_feeds = 2, failed_feeds = 1\<rparr>"]
  from t example_second_run
  have "[item_office, item_office, item_platform, item_platform] =
     limit_to_max (max_results example_digest)
       (sort_reverse date ([item_office, item_platform] @
          concat (map (feed_items example_env example_digest) (rss_feeds example_digest))))"
    by blast
  then show ?thesis
    by (simp only: example_first_run example_second_run fst_conv snd_conv) simp
qed

text \<open>
  C10. With an empty stored collection, \<open>save_to_csv\<close> and \<open>save_to_html\<close> print the
  notice and return: the directories and the files are as before, after either call
  and after both.
\<close>

theorem empty_collection_saves_nothing:
  assumes "news_items self = []"
  shows "save_to_csv E self f w = w\<lparr>printed := printed w @ [str ''No news items to save.'']\<rparr> \<and>
         save_to_html E self g w = w\<lparr>printed := printed w @ [str ''No news items to save.'']\<rparr> \<and>
         dirs (save_to_csv E self f (save_to_html E self g w)) = dirs w \<and>
         files (save_to_csv E self f (save_to_html E self g w)) = files w"
  using assms by (simp add: save_to_csv_def save_to_html_def)

text \<open>
  A new object saves nothing; an object with an item creates the folder and writes the
  file.
\<close>

theorem empty_collection_saves_nothing_witness:
  "news_items (init None 10 False) = [] \<and>
   save_to_csv example_env (init None 10 False) None empty_world =
     empty_world\<lparr>printed := [str ''No news items to save.'']\<rparr> \<and>
   save_to_html example_env (init None 10 False) None empty_world =
     empty_world\<lparr>printed := [str ''No news items to save.'']\<rparr> \<and>
   dirs (save_to_csv example_env (init None 10 False) None
          (save_to_html example_env (init None 10 False) None empty_world)) = {} \<and>
   files (save_to_csv example_env (init None 10 False) None
          (save_to_html example_env (init None 10 False) None empty_world)) = Map.empty \<and>
   dirs (save_to_csv example_env ((init None 10 False)\<lparr>news_items := [item_office]\<rparr>) None
          empty_world) = {folder_path}"
proof -
  have h: "news_items (init None 10 False) = []" by (simp add: init_def)
  have n: "dirs (save_to_csv example_env ((init None 10 False)\<lparr>news_items := [item_office]\<rparr>) None
          empty_world) = {folder_path}"
    by (simp add: save_to_csv_def empty_world_def Let_def)
  have pw: "printed empty_world = []" and dw: "dirs empty_world = {}"
    and fw: "files empty_world = Map.empty"
    by (simp_all add: empty_world_def)
  note t = empty_collection_saves_nothing [OF h, of example_env None empty_world None]
  from t [THEN conjunct1] have c1: "save_to_csv example_env (init None 10 False) None empty_world =
      empty_world\<lparr>printed := [str ''No news items to save.'']\<rparr>"
    by (simp add: pw)
  from t [THEN conjunct2, THEN conjunct1]
  have c2: "save_to_html example_env (init None 10 False) None empty_world =
      empty_world\<lparr>printed := [str ''No news items to save.'']\<rparr>"
    by (simp add: pw)
  from t [THEN conjunct2, THEN conjunct2, THEN conjunct1]
  have c3: "dirs (save_to_csv example_env (init None 10 False) None
          (save_to_html example_env (init None 10 False) None empty_world)) = {}"
    by (simp only: dw)
  from t [THEN conjunct2, THEN conjunct2, THEN conjunct2]
  have c4: "files (save_to_csv example_env (init None 10 False) None
          (save_to_html example_env (init None 10 False) None empty_world)) = Map.empty"
    by (simp only: fw)
  from h c1 c2 c3 c4 n show ?thesis by blast
qed

end
